theory Spec2Isabelle
  imports Complex_Main
begin

section \<open>The item service of \<^verbatim>\<open>src/main.py\<close>\<close>

text \<open>
  The program is a FastAPI application with five routes over one SQLAlchemy table,
  \<^verbatim>\<open>items\<close>. The embedding has three layers, the way the source has them:
  \<^item> the table and the session calls the handlers make on it (\<^verbatim>\<open>query(...).filter(...).first()\<close>,
    \<^verbatim>\<open>add\<close>, \<^verbatim>\<open>delete\<close>, \<^verbatim>\<open>commit\<close>, \<^verbatim>\<open>refresh\<close>), as functions on a list of rows;
  \<^item> the pydantic schemas and the two dependencies \<^verbatim>\<open>get_item_create\<close> and
    \<^verbatim>\<open>get_item_update\<close>, with the query parameters they are fed from;
  \<^item> the five handlers, each returning its result (an error or a row) together with the
    table it leaves behind, and the response FastAPI builds from that result.

  A timestamp is an integer reading of the clock. An id in a request is a Python
  \<^verbatim>\<open>int\<close>, unbounded, hence \<^typ>\<open>int\<close>; an id in the table is an SQLite \<^verbatim>\<open>INTEGER\<close>, a
  signed integer of 64 bits, and the driver refuses to bind any other.
\<close>

subsection \<open>Floats and integers of the store\<close>

text \<open>
  A price is a Python \<^verbatim>\<open>float\<close>. The program stores and returns it and never computes
  with it, so its finite values are reals here; the two infinities and NaN are values of
  their own, since pydantic accepts them and the store treats NaN apart: SQLite binds it
  as \<^verbatim>\<open>NULL\<close>.
\<close>

datatype pyfloat = Finite real | PosInf | NegInf | NaN

fun isfinite :: "pyfloat \<Rightarrow> bool" where
  "isfinite (Finite x) = True"
| "isfinite PosInf = False"
| "isfinite NegInf = False"
| "isfinite NaN = False"

text \<open>The integers the \<^verbatim>\<open>sqlite3\<close> driver binds as \<^verbatim>\<open>INTEGER\<close>.\<close>

definition int64 :: "int \<Rightarrow> bool" where
  "int64 i = (- (2 ^ 63) \<le> i \<and> i < 2 ^ 63)"

subsection \<open>Rows and schemas\<close>

type_synonym datetime = int

text \<open>
  \<^verbatim>\<open>class ItemModel(Base)\<close>, lines 17-23. The three classes of the source share their
  field names; a record field is a constant of its own, so each class gets a prefix:
  \<open>m_\<close> for the stored row, \<open>c_\<close> for \<^verbatim>\<open>ItemCreate\<close>, \<open>u_\<close> for \<^verbatim>\<open>ItemUpdate\<close>,
  \<open>r_\<close> for \<^verbatim>\<open>ItemResponse\<close>. The column \<^verbatim>\<open>description\<close> is nullable; \<^verbatim>\<open>name\<close> and \<^verbatim>\<open>price\<close>
  are \<^verbatim>\<open>nullable=False\<close>.
\<close>

record ItemModel =
  m_id :: int
  m_name :: string
  m_description :: "string option"
  m_price :: pyfloat
  m_created_at :: datetime

text \<open>\<^verbatim>\<open>class ItemCreate(BaseModel)\<close>, lines 29-32.\<close>

record ItemCreate =
  c_name :: string
  c_description :: "string option"
  c_price :: pyfloat

text \<open>
  \<^verbatim>\<open>class ItemUpdate(BaseModel)\<close>, lines 34-37: three plain nullable fields, each with
  the default \<^verbatim>\<open>None\<close>.
\<close>

record ItemUpdate =
  u_name :: "string option"
  u_description :: "string option"
  u_price :: "pyfloat option"

text \<open>\<^verbatim>\<open>class ItemResponse(BaseModel)\<close>, lines 39-47, filled from a row's attributes.\<close>

record ItemResponse =
  r_id :: int
  r_name :: string
  r_description :: "string option"
  r_price :: pyfloat
  r_created_at :: datetime

definition from_attributes :: "ItemModel \<Rightarrow> ItemResponse" where
  "from_attributes row =
     \<lparr>r_id = m_id row, r_name = m_name row, r_description = m_description row,
      r_price = m_price row, r_created_at = m_created_at row\<rparr>"

subsection \<open>Errors\<close>

text \<open>
  \<^verbatim>\<open>HTTPException(status_code, detail)\<close> is what the handlers raise; FastAPI raises
  \<^verbatim>\<open>RequestValidationError\<close> for the parameters of a request, here with the names of
  the offending parameters; \<^verbatim>\<open>InvalidRequestError\<close> is what \<^verbatim>\<open>Session.refresh\<close> raises
  when the row it reloads is gone; \<^verbatim>\<open>IntegrityError\<close> is what a commit raises when the
  table refuses a row (\<^verbatim>\<open>NOT NULL constraint failed\<close>); \<^verbatim>\<open>OverflowError\<close> is what the driver
  raises for an integer it cannot bind.
\<close>

datatype error =
    HTTPException nat string
  | RequestValidationError "string list"
  | InvalidRequestError
  | IntegrityError
  | OverflowError

subsection \<open>The table and the session\<close>

text \<open>
  The state of the program is the content of the table \<^verbatim>\<open>items\<close>: its rows, in rowid
  order. \<^verbatim>\<open>id\<close> is the \<^verbatim>\<open>INTEGER PRIMARY KEY\<close>, so a table of the database never holds
  two rows with one id, nor an id that is no 64-bit integer; \<open>primary_key\<close> says so.
\<close>

type_synonym items = "ItemModel list"

definition primary_key :: "items \<Rightarrow> bool" where
  "primary_key db = (distinct (map m_id db) \<and> list_all (\<lambda>row. int64 (m_id row)) db)"

text \<open>
  \<^verbatim>\<open>db.query(ItemModel).filter(ItemModel.id == item_id).first()\<close>. The id is bound as a
  parameter of the \<^verbatim>\<open>SELECT\<close>; an id outside the 64 bits raises before any row is read.
\<close>

definition query_first :: "int \<Rightarrow> items \<Rightarrow> error + ItemModel option" where
  "query_first item_id db =
     (if int64 item_id then Inr (find (\<lambda>row. m_id row = item_id) db) else Inl OverflowError)"

text \<open>
  The id a new row gets. \<^verbatim>\<open>Column(Integer, primary_key=True, autoincrement=True)\<close> is
  an SQLite \<^verbatim>\<open>INTEGER PRIMARY KEY\<close>, the rowid: 1 in an empty table, otherwise one more
  than the largest id in the table. Once the largest id is the largest 64-bit integer,
  SQLite draws an unused id at random instead; the model does not follow it there, and
  what is proved of an insert is proved of the tables where \<open>next_id\<close> is still a 64-bit
  integer.
\<close>

definition next_id :: "items \<Rightarrow> int" where
  "next_id db = (if db = [] then 1 else Max (set (map m_id db)) + 1)"

text \<open>
  \<^verbatim>\<open>db.add(db_item); db.commit()\<close>: the \<^verbatim>\<open>INSERT\<close>. The row gets its id from the table and
  its \<^verbatim>\<open>created_at\<close> from the column default \<^verbatim>\<open>datetime.utcnow\<close>, whose reading is \<open>now\<close>.
  A NaN price is bound as \<^verbatim>\<open>NULL\<close>, which the column \<^verbatim>\<open>price\<close>, \<^verbatim>\<open>nullable=False\<close> at line 22,
  refuses: the commit raises and the table keeps its rows.
\<close>

definition add_commit ::
  "datetime \<Rightarrow> string \<Rightarrow> string option \<Rightarrow> pyfloat \<Rightarrow> items \<Rightarrow> error + int \<times> items" where
  "add_commit now name description price db =
     (if price = NaN then Inl IntegrityError
      else (let new_id = next_id db
            in Inr (new_id,
                    db @ [\<lparr>m_id = new_id, m_name = name, m_description = description,
                           m_price = price, m_created_at = now\<rparr>])))"

text \<open>
  \<^verbatim>\<open>db.commit()\<close> after attribute assignments on the loaded row: \<open>db_item\<close> is the row as
  the query loaded it, \<open>db_item'\<close> the row after the assignments. The session writes the
  attributes that changed, in one \<^verbatim>\<open>UPDATE items SET ... WHERE items.id = ?\<close>; a price
  changed to NaN is bound as \<^verbatim>\<open>NULL\<close> and refused as in the insert, and then no attribute
  is written.
\<close>

definition update_commit :: "ItemModel \<Rightarrow> ItemModel \<Rightarrow> items \<Rightarrow> error + items" where
  "update_commit db_item db_item' db =
     (if m_price db_item' \<noteq> m_price db_item \<and> m_price db_item' = NaN then Inl IntegrityError
      else Inr (map (\<lambda>row. if m_id row = m_id db_item then db_item' else row) db))"

text \<open>\<^verbatim>\<open>db.delete(db_item); db.commit()\<close>: the \<^verbatim>\<open>DELETE FROM items WHERE items.id = ?\<close>.\<close>

definition delete_commit :: "int \<Rightarrow> items \<Rightarrow> items" where
  "delete_commit item_id db = filter (\<lambda>row. m_id row \<noteq> item_id) db"

text \<open>\<^verbatim>\<open>db.refresh(db_item)\<close>: the row is read again by its primary key.\<close>

definition refresh :: "int \<Rightarrow> items \<Rightarrow> error + ItemModel" where
  "refresh item_id db =
     (case query_first item_id db of
        Inl e \<Rightarrow> Inl e
      | Inr None \<Rightarrow> Inl InvalidRequestError
      | Inr (Some row) \<Rightarrow> Inr row)"

subsection \<open>The dependencies\<close>

text \<open>
  A Python call gives a parameter that has a default either no argument or a value. For
  \<^verbatim>\<open>description: str | None = None\<close> the value may itself be \<^verbatim>\<open>None\<close>: \<open>Omitted\<close> is the
  call without the argument, \<open>Supplied None\<close> the call with an explicit \<^verbatim>\<open>None\<close>; \<open>or_default\<close>
  is the value the body of the function then sees.
\<close>

datatype 'a arg = Omitted | Supplied 'a

fun or_default :: "'a \<Rightarrow> 'a arg \<Rightarrow> 'a" where
  "or_default d Omitted = d"
| "or_default d (Supplied v) = v"

text \<open>\<^verbatim>\<open>def get_item_create(name: str, price: float, description: str = None)\<close>, lines 59-60.\<close>

definition get_item_create :: "string \<Rightarrow> pyfloat \<Rightarrow> string option arg \<Rightarrow> ItemCreate" where
  "get_item_create name price description =
     \<lparr>c_name = name, c_description = or_default None description, c_price = price\<rparr>"

text \<open>
  \<^verbatim>\<open>def get_item_update(name: str | None = None, price: float | None = None,
  description: str | None = None)\<close>, lines 62-67.
\<close>

definition get_item_update ::
  "string option arg \<Rightarrow> pyfloat option arg \<Rightarrow> string option arg \<Rightarrow> ItemUpdate" where
  "get_item_update name price description =
     \<lparr>u_name = or_default None name, u_description = or_default None description,
      u_price = or_default None price\<rparr>"

text \<open>
  FastAPI feeds the parameters of a dependency from the query string, which Starlette
  has decoded into a dictionary from names to strings. A parameter without a default is
  required; a \<^verbatim>\<open>float\<close> parameter is read from its string by pydantic, and that reading
  is the parameter \<open>parse_float\<close> here (\<open>None\<close> when pydantic refuses the string; it
  accepts the spellings of the infinities and of NaN). Each function returns the names of
  the offending parameters, or the argument of the call.
\<close>

type_synonym query_params = "string \<rightharpoonup> string"

definition required_str :: "string \<Rightarrow> query_params \<Rightarrow> string list + string" where
  "required_str key q = (case q key of None \<Rightarrow> Inl [key] | Some s \<Rightarrow> Inr s)"

definition required_float ::
  "(string \<Rightarrow> pyfloat option) \<Rightarrow> string \<Rightarrow> query_params \<Rightarrow> string list + pyfloat" where
  "required_float parse_float key q =
     (case q key of
        None \<Rightarrow> Inl [key]
      | Some s \<Rightarrow> (case parse_float s of None \<Rightarrow> Inl [key] | Some x \<Rightarrow> Inr x))"

definition optional_str :: "string \<Rightarrow> query_params \<Rightarrow> string list + string option arg" where
  "optional_str key q = (case q key of None \<Rightarrow> Inr Omitted | Some s \<Rightarrow> Inr (Supplied (Some s)))"

definition optional_float ::
  "(string \<Rightarrow> pyfloat option) \<Rightarrow> string \<Rightarrow> query_params \<Rightarrow> string list + pyfloat option arg" where
  "optional_float parse_float key q =
     (case q key of
        None \<Rightarrow> Inr Omitted
      | Some s \<Rightarrow> (case parse_float s of None \<Rightarrow> Inl [key] | Some x \<Rightarrow> Inr (Supplied (Some x))))"

fun errors :: "string list + 'a \<Rightarrow> string list" where
  "errors (Inl es) = es"
| "errors (Inr v) = []"

text \<open>\<^verbatim>\<open>Depends(get_item_create)\<close> and \<^verbatim>\<open>Depends(get_item_update)\<close>, lines 71 and 94.\<close>

definition depends_get_item_create ::
  "(string \<Rightarrow> pyfloat option) \<Rightarrow> query_params \<Rightarrow> error + ItemCreate" where
  "depends_get_item_create parse_float q =
     (let name = required_str ''name'' q;
          price = required_float parse_float ''price'' q;
          description = optional_str ''description'' q
      in case (name, price, description) of
           (Inr n, Inr p, Inr d) \<Rightarrow> Inr (get_item_create n p d)
         | _ \<Rightarrow> Inl (RequestValidationError (errors name @ errors price @ errors description)))"

definition depends_get_item_update ::
  "(string \<Rightarrow> pyfloat option) \<Rightarrow> query_params \<Rightarrow> error + ItemUpdate" where
  "depends_get_item_update parse_float q =
     (let name = optional_str ''name'' q;
          price = optional_float parse_float ''price'' q;
          description = optional_str ''description'' q
      in case (name, price, description) of
           (Inr n, Inr p, Inr d) \<Rightarrow> Inr (get_item_update n p d)
         | _ \<Rightarrow> Inl (RequestValidationError (errors name @ errors price @ errors description)))"

subsection \<open>The handlers\<close>

text \<open>\<^verbatim>\<open>def create_item(item, db)\<close>, lines 70-76.\<close>

definition create_item :: "datetime \<Rightarrow> ItemCreate \<Rightarrow> items \<Rightarrow> (error + ItemModel) \<times> items" where
  "create_item now item db =
     (case add_commit now (c_name item) (c_description item) (c_price item) db of
        Inl e \<Rightarrow> (Inl e, db)
      | Inr (new_id, db') \<Rightarrow> (refresh new_id db', db'))"

text \<open>\<^verbatim>\<open>def read_items(db)\<close>, lines 79-82.\<close>

definition read_items :: "items \<Rightarrow> ItemModel list" where
  "read_items db = db"

text \<open>\<^verbatim>\<open>def read_item(item_id, db)\<close>, lines 85-90.\<close>

definition read_item :: "int \<Rightarrow> items \<Rightarrow> error + ItemModel" where
  "read_item item_id db =
     (case query_first item_id db of
        Inl e \<Rightarrow> Inl e
      | Inr None \<Rightarrow> Inl (HTTPException 404 ''Item not found'')
      | Inr (Some item) \<Rightarrow> Inr item)"

text \<open>
  The three guarded assignments of \<^verbatim>\<open>update_item\<close>, lines 99-104, in the order of the
  source: each field of the request that \<^verbatim>\<open>is not None\<close> is assigned to the row.
\<close>

definition assign_fields :: "ItemUpdate \<Rightarrow> ItemModel \<Rightarrow> ItemModel" where
  "assign_fields item db_item =
     (let db_item1 = (case u_name item of None \<Rightarrow> db_item | Some n \<Rightarrow> db_item\<lparr>m_name := n\<rparr>);
          db_item2 = (case u_description item of
                        None \<Rightarrow> db_item1
                      | Some d \<Rightarrow> db_item1\<lparr>m_description := Some d\<rparr>);
          db_item3 = (case u_price item of None \<Rightarrow> db_item2 | Some p \<Rightarrow> db_item2\<lparr>m_price := p\<rparr>)
      in db_item3)"

text \<open>\<^verbatim>\<open>def update_item(item_id, item, db)\<close>, lines 93-108.\<close>

definition update_item :: "int \<Rightarrow> ItemUpdate \<Rightarrow> items \<Rightarrow> (error + ItemModel) \<times> items" where
  "update_item item_id item db =
     (case query_first item_id db of
        Inl e \<Rightarrow> (Inl e, db)
      | Inr None \<Rightarrow> (Inl (HTTPException 404 ''Item not found''), db)
      | Inr (Some db_item) \<Rightarrow>
          (case update_commit db_item (assign_fields item db_item) db of
             Inl e \<Rightarrow> (Inl e, db)
           | Inr db' \<Rightarrow> (refresh item_id db', db')))"

text \<open>
  \<^verbatim>\<open>def delete_item(item_id, db)\<close>, lines 111-119. The object returned is the one the
  query loaded before the \<^verbatim>\<open>DELETE\<close>.
\<close>

definition delete_item :: "int \<Rightarrow> items \<Rightarrow> (error + ItemModel) \<times> items" where
  "delete_item item_id db =
     (case query_first item_id db of
        Inl e \<Rightarrow> (Inl e, db)
      | Inr None \<Rightarrow> (Inl (HTTPException 404 ''Item not found''), db)
      | Inr (Some db_item) \<Rightarrow> (Inr db_item, delete_commit item_id db))"

subsection \<open>The routes\<close>

text \<open>
  A route first resolves its dependency from the query string; when that fails the
  handler is not called. \<^verbatim>\<open>@app.post("/items/")\<close> and \<^verbatim>\<open>@app.put("/items/{item_id}")\<close>:
\<close>

definition post_items ::
  "(string \<Rightarrow> pyfloat option) \<Rightarrow> datetime \<Rightarrow> query_params \<Rightarrow> items \<Rightarrow> (error + ItemModel) \<times> items" where
  "post_items parse_float now q db =
     (case depends_get_item_create parse_float q of
        Inl e \<Rightarrow> (Inl e, db)
      | Inr item \<Rightarrow> create_item now item db)"

definition put_items ::
  "(string \<Rightarrow> pyfloat option) \<Rightarrow> int \<Rightarrow> query_params \<Rightarrow> items \<Rightarrow> (error + ItemModel) \<times> items" where
  "put_items parse_float item_id q db =
     (case depends_get_item_update parse_float q of
        Inl e \<Rightarrow> (Inl e, db)
      | Inr item \<Rightarrow> update_item item_id item db)"

text \<open>
  The response to a request. None of the five decorators passes \<^verbatim>\<open>status_code\<close>, so a
  result is sent with FastAPI's default status, 200, its body built by the
  \<^verbatim>\<open>response_model\<close>; an \<^verbatim>\<open>HTTPException\<close> is sent with its own status and detail, a
  \<^verbatim>\<open>RequestValidationError\<close> with 422, any other exception with 500. How the body
  renders a price that is not finite is not modelled.
\<close>

datatype content =
    Item ItemResponse
  | Detail string
  | ValidationDetail "string list"

datatype response = JSONResponse (status_code: nat) (body: content)

fun respond :: "error + ItemModel \<Rightarrow> response" where
  "respond (Inr row) = JSONResponse 200 (Item (from_attributes row))"
| "respond (Inl (HTTPException code detail)) = JSONResponse code (Detail detail)"
| "respond (Inl (RequestValidationError es)) = JSONResponse 422 (ValidationDetail es)"
| "respond (Inl InvalidRequestError) = JSONResponse 500 (Detail ''Internal Server Error'')"
| "respond (Inl IntegrityError) = JSONResponse 500 (Detail ''Internal Server Error'')"
| "respond (Inl OverflowError) = JSONResponse 500 (Detail ''Internal Server Error'')"

text \<open>
  A reading of pydantic's float parser, for the examples: \<open>float_sample\<close> agrees with it on
  the strings \<open>1.5\<close>, \<open>nan\<close>, \<open>inf\<close> and \<open>cheap\<close>, which is all the examples ask of it.
\<close>

definition float_sample :: "string \<Rightarrow> pyfloat option" where
  "float_sample s =
     (if s = ''1.5'' then Some (Finite (3 / 2))
      else if s = ''nan'' then Some NaN
      else if s = ''inf'' then Some PosInf
      else None)"

text \<open>
  The items of the examples: a pen with a description, stored under id 1, and a cup
  without one, stored under id 2.
\<close>

definition pen :: ItemModel where
  "pen = \<lparr>m_id = 1, m_name = ''Pen'', m_description = Some ''blue'', m_price = Finite (3 / 2),
          m_created_at = 0\<rparr>"

definition cup :: ItemModel where
  "cup = \<lparr>m_id = 2, m_name = ''Cup'', m_description = None, m_price = Finite 4,
          m_created_at = 5\<rparr>"

section \<open>Properties of the table operations\<close>

lemma query_first_absent:
  "int64 i \<Longrightarrow> i \<notin> m_id ` set db \<Longrightarrow> query_first i db = Inr None"
  by (auto simp: query_first_def find_None_iff)

lemma query_first_out_of_range: "\<not> int64 i \<Longrightarrow> query_first i db = Inl OverflowError"
  by (simp add: query_first_def)

lemma query_first_Some_id:
  "query_first i db = Inr (Some row) \<Longrightarrow> m_id row = i \<and> row \<in> set db \<and> int64 i"
  by (auto simp: query_first_def find_Some_iff split: if_splits)

lemma find_stored:
  "distinct (map m_id db) \<Longrightarrow> row \<in> set db \<Longrightarrow> find (\<lambda>x. m_id x = m_id row) db = Some row"
proof (induction db)
  case Nil
  then show ?case by simp
next
  case (Cons x db)
  show ?case
  proof (cases "m_id x = m_id row")
    case True
    with Cons.prems have "x = row" by auto
    then show ?thesis by simp
  next
    case False
    with Cons show ?thesis by auto
  qed
qed

lemma query_first_stored:
  "primary_key db \<Longrightarrow> row \<in> set db \<Longrightarrow> query_first (m_id row) db = Inr (Some row)"
  by (simp add: primary_key_def query_first_def find_stored list_all_iff)

lemma next_id_fresh: "next_id db \<notin> m_id ` set db"
proof
  assume a: "next_id db \<in> m_id ` set db"
  then have ne: "db \<noteq> []" by auto
  from a have "next_id db \<le> Max (set (map m_id db))"
    by (intro Max_ge) auto
  with ne show False by (simp add: next_id_def)
qed

lemma find_append_fresh:
  "i \<notin> m_id ` set db \<Longrightarrow> m_id row = i \<Longrightarrow> find (\<lambda>x. m_id x = i) (db @ [row]) = Some row"
  by (induction db) auto

lemma find_replace:
  "m_id new = i \<Longrightarrow>
     find (\<lambda>x. m_id x = j) (map (\<lambda>x. if m_id x = i then new else x) db) =
       (if j = i then map_option (\<lambda>_. new) (find (\<lambda>x. m_id x = i) db)
        else find (\<lambda>x. m_id x = j) db)"
  by (induction db) auto

lemma find_delete_commit:
  "find (\<lambda>x. m_id x = j) (delete_commit i db) =
     (if j = i then None else find (\<lambda>x. m_id x = j) db)"
  by (induction db) (auto simp: delete_commit_def)

lemma assign_fields_sel:
  "m_id (assign_fields item row) = m_id row"
  "m_created_at (assign_fields item row) = m_created_at row"
  "m_name (assign_fields item row) = (case u_name item of None \<Rightarrow> m_name row | Some n \<Rightarrow> n)"
  "m_description (assign_fields item row) =
     (case u_description item of None \<Rightarrow> m_description row | Some d \<Rightarrow> Some d)"
  "m_price (assign_fields item row) = (case u_price item of None \<Rightarrow> m_price row | Some p \<Rightarrow> p)"
  by (simp_all add: assign_fields_def Let_def split: option.splits)

lemma assign_fields_nothing:
  "u_name item = None \<Longrightarrow> u_description item = None \<Longrightarrow> u_price item = None \<Longrightarrow>
     assign_fields item row = row"
  by (simp add: assign_fields_def)

text \<open>
  The three ways of an update on an id that is in the table: the store refuses the price,
  or the row is written and reloaded.
\<close>

lemma update_item_unfold:
  assumes "query_first i db = Inr (Some row)"
  shows "update_item i item db =
           (if m_price (assign_fields item row) \<noteq> m_price row \<and>
               m_price (assign_fields item row) = NaN
            then (Inl IntegrityError, db)
            else (Inr (assign_fields item row),
                  map (\<lambda>x. if m_id x = i then assign_fields item row else x) db))"
proof -
  from assms have r: "int64 i" and f: "find (\<lambda>x. m_id x = i) db = Some row"
    by (simp_all add: query_first_def split: if_splits)
  from f have i: "m_id row = i"
    by (auto simp: find_Some_iff)
  have n: "m_id (assign_fields item row) = i"
    by (simp add: assign_fields_sel i)
  have "refresh i (map (\<lambda>x. if m_id x = i then assign_fields item row else x) db) =
          Inr (assign_fields item row)"
    by (simp add: refresh_def query_first_def r find_replace [OF n] f)
  then show ?thesis
    by (simp add: update_item_def assms update_commit_def i)
qed

lemma update_item_refused:
  "query_first i db = Inr (Some row) \<Longrightarrow> u_price item = Some NaN \<Longrightarrow> m_price row \<noteq> NaN \<Longrightarrow>
     update_item i item db = (Inl IntegrityError, db)"
  by (simp add: update_item_unfold assign_fields_sel)

lemma update_item_found:
  assumes "query_first i db = Inr (Some row)" and "u_price item \<noteq> Some NaN"
  shows "update_item i item db =
           (Inr (assign_fields item row),
            map (\<lambda>x. if m_id x = i then assign_fields item row else x) db)"
proof -
  from assms(2) have "\<not> (m_price (assign_fields item row) \<noteq> m_price row \<and>
                         m_price (assign_fields item row) = NaN)"
    by (cases "u_price item") (simp_all add: assign_fields_sel)
  then show ?thesis
    by (simp add: update_item_unfold [OF assms(1)])
qed

lemma update_item_not_found:
  "int64 i \<Longrightarrow> i \<notin> m_id ` set db \<Longrightarrow>
     update_item i item db = (Inl (HTTPException 404 ''Item not found''), db)"
  by (simp add: update_item_def query_first_absent)

lemma delete_item_not_found:
  "int64 i \<Longrightarrow> i \<notin> m_id ` set db \<Longrightarrow>
     delete_item i db = (Inl (HTTPException 404 ''Item not found''), db)"
  by (simp add: delete_item_def query_first_absent)

lemma read_item_not_found:
  "int64 i \<Longrightarrow> i \<notin> m_id ` set db \<Longrightarrow> read_item i db = Inl (HTTPException 404 ''Item not found'')"
  by (simp add: read_item_def query_first_absent)

text \<open>The two ways of a create: the store refuses the price, or the row is appended and reloaded.\<close>

lemma create_item_refused: "c_price item = NaN \<Longrightarrow> create_item now item db = (Inl IntegrityError, db)"
  by (simp add: create_item_def add_commit_def)

lemma create_item_eq:
  "c_price item \<noteq> NaN \<Longrightarrow> int64 (next_id db) \<Longrightarrow>
     create_item now item db =
       (Inr \<lparr>m_id = next_id db, m_name = c_name item, m_description = c_description item,
             m_price = c_price item, m_created_at = now\<rparr>,
        db @ [\<lparr>m_id = next_id db, m_name = c_name item, m_description = c_description item,
               m_price = c_price item, m_created_at = now\<rparr>])"
  by (simp add: create_item_def add_commit_def Let_def refresh_def query_first_def
      find_append_fresh next_id_fresh)

text \<open>Under the primary key, the \<^verbatim>\<open>UPDATE\<close> and the \<^verbatim>\<open>DELETE\<close> touch the one stored row.\<close>

lemma id_eq_iff_stored:
  assumes "primary_key db" and "row \<in> set db" and "x \<in> set db"
  shows "m_id x = m_id row \<longleftrightarrow> x = row"
proof -
  from assms(1) have "inj_on m_id (set db)"
    by (simp add: primary_key_def distinct_map)
  with assms(2,3) show ?thesis by (auto dest: inj_onD)
qed

lemma update_commit_stored:
  assumes "primary_key db" and "row \<in> set db"
  shows "map (\<lambda>x. if m_id x = m_id row then new else x) db =
         map (\<lambda>x. if x = row then new else x) db"
  by (intro map_cong refl) (simp add: id_eq_iff_stored [OF assms])

lemma delete_commit_stored:
  assumes "primary_key db" and "row \<in> set db"
  shows "delete_commit (m_id row) db = filter (\<lambda>x. x \<noteq> row) db"
  unfolding delete_commit_def by (intro filter_cong refl) (simp add: id_eq_iff_stored [OF assms])

text \<open>Every operation keeps the primary key.\<close>

lemma primary_key_create_item:
  assumes "primary_key db" and "int64 (next_id db)"
  shows "primary_key (snd (create_item now item db))"
proof (cases "c_price item = NaN")
  case True
  with assms(1) show ?thesis by (simp add: create_item_refused)
next
  case False
  with assms next_id_fresh [of db] show ?thesis
    by (simp add: create_item_eq primary_key_def)
qed

lemma primary_key_replace:
  "m_id new = i \<Longrightarrow> int64 i \<Longrightarrow> primary_key db \<Longrightarrow>
     primary_key (map (\<lambda>x. if m_id x = i then new else x) db)"
proof -
  assume n: "m_id new = i" and i: "int64 i" and pk: "primary_key db"
  from n have ids: "map m_id (map (\<lambda>x. if m_id x = i then new else x) db) = map m_id db"
    by (induction db) auto
  from pk have "list_all (\<lambda>row. int64 (m_id row)) db"
    by (simp add: primary_key_def)
  with n i have "list_all (\<lambda>row. int64 (m_id row)) (map (\<lambda>x. if m_id x = i then new else x) db)"
    by (induction db) auto
  with pk ids show ?thesis
    unfolding primary_key_def by (simp only: simp_thms)
qed

lemma primary_key_delete_commit: "primary_key db \<Longrightarrow> primary_key (delete_commit i db)"
  by (simp add: delete_commit_def primary_key_def distinct_map_filter list_all_iff)

lemma primary_key_delete_item: "primary_key db \<Longrightarrow> primary_key (snd (delete_item i db))"
  by (simp add: delete_item_def primary_key_delete_commit split: sum.splits option.splits)

lemma primary_key_update_item: "primary_key db \<Longrightarrow> primary_key (snd (update_item i item db))"
proof (cases "query_first i db")
  case (Inl e)
  assume "primary_key db"
  with Inl show ?thesis by (simp add: update_item_def)
next
  case (Inr found)
  assume pk: "primary_key db"
  show ?thesis
  proof (cases found)
    case None
    with Inr pk show ?thesis by (simp add: update_item_def)
  next
    case (Some row)
    with Inr have q: "query_first i db = Inr (Some row)" by simp
    then have i: "m_id row = i" "int64 i" by (auto dest: query_first_Some_id)
    have n: "m_id (assign_fields item row) = i"
      by (simp add: assign_fields_sel i)
    from pk show ?thesis
      by (simp add: update_item_unfold [OF q] primary_key_replace [OF n i(2)])
  qed
qed

lemma update_item_error_unchanged:
  "isl (fst (update_item i item db)) \<Longrightarrow> snd (update_item i item db) = db"
proof (cases "query_first i db")
  case (Inl e)
  then show ?thesis by (simp add: update_item_def)
next
  case (Inr found)
  assume err: "isl (fst (update_item i item db))"
  show ?thesis
  proof (cases found)
    case None
    with Inr show ?thesis by (simp add: update_item_def)
  next
    case (Some row)
    with Inr have "query_first i db = Inr (Some row)" by simp
    from err update_item_unfold [OF this, of item] show ?thesis
      by (simp split: if_splits)
  qed
qed

lemma delete_item_error_unchanged:
  "isl (fst (delete_item i db)) \<Longrightarrow> snd (delete_item i db) = db"
  by (simp add: delete_item_def split: sum.splits option.splits)

lemma put_items_error_unchanged:
  "isl (fst (put_items parse_float i q db)) \<Longrightarrow> snd (put_items parse_float i q db) = db"
  by (cases "depends_get_item_update parse_float q")
     (simp_all add: put_items_def update_item_error_unchanged)

text \<open>What the dependency of the create route accepts and what it rejects.\<close>

lemma depends_get_item_create_valid:
  "q ''name'' = Some n \<Longrightarrow> q ''price'' = Some s \<Longrightarrow> parse_float s = Some p \<Longrightarrow>
     depends_get_item_create parse_float q =
       Inr \<lparr>c_name = n, c_description = q ''description'', c_price = p\<rparr>"
  by (cases "q ''description''")
     (simp_all add: depends_get_item_create_def required_str_def required_float_def
       optional_str_def get_item_create_def)

lemma depends_get_item_create_invalid:
  "q ''name'' = None \<or> q ''price'' = None \<or> (\<exists>s. q ''price'' = Some s \<and> parse_float s = None) \<Longrightarrow>
     \<exists>es. es \<noteq> [] \<and> depends_get_item_create parse_float q = Inl (RequestValidationError es)"
  by (auto simp: depends_get_item_create_def required_str_def required_float_def
      optional_str_def split: option.splits)

text \<open>A description that is set stays set under any update, and so under any sequence of them.\<close>

lemma description_step:
  assumes "query_first i db = Inr (Some row)" and "m_description row \<noteq> None"
  shows "\<exists>row'. query_first i (snd (update_item j item db)) = Inr (Some row') \<and>
                m_description row' \<noteq> None"
proof (cases "query_first j db")
  case (Inl e)
  with assms show ?thesis by (simp add: update_item_def)
next
  case (Inr found)
  show ?thesis
  proof (cases found)
    case None
    with Inr assms show ?thesis by (simp add: update_item_def)
  next
    case (Some r)
    with Inr have q: "query_first j db = Inr (Some r)" by simp
    let ?new = "assign_fields item r"
    have n: "m_id ?new = j"
      using q by (auto simp: assign_fields_sel dest: query_first_Some_id)
    from assms(1) have i: "int64 i" and f: "find (\<lambda>x. m_id x = i) db = Some row"
      by (simp_all add: query_first_def split: if_splits)
    show ?thesis
    proof (cases "m_price ?new \<noteq> m_price r \<and> m_price ?new = NaN")
      case True
      have "update_item j item db = (Inl IntegrityError, db)"
        unfolding update_item_unfold [OF q] if_P [OF True] by (rule refl)
      with assms show ?thesis by simp
    next
      case False
      have "update_item j item db = (Inr ?new, map (\<lambda>x. if m_id x = j then ?new else x) db)"
        unfolding update_item_unfold [OF q] if_not_P [OF False] by (rule refl)
      then have db': "snd (update_item j item db) = map (\<lambda>x. if m_id x = j then ?new else x) db"
        by simp
      show ?thesis
      proof (cases "i = j")
        case True
        with q assms(1) have "r = row" by simp
        with True assms(2) have "m_description ?new \<noteq> None"
          by (simp add: assign_fields_sel split: option.splits)
        with True f i show ?thesis
          by (simp add: db' query_first_def find_replace [OF n])
      next
        case False
        with f assms(2) show ?thesis
          by (simp add: db' query_first_def i find_replace [OF n])
      qed
    qed
  qed
qed

lemma description_stays:
  "query_first i db = Inr (Some row) \<Longrightarrow> m_description row \<noteq> None \<Longrightarrow>
     \<exists>row'. query_first i (fold (\<lambda>(j, item) db. snd (update_item j item db)) reqs db)
              = Inr (Some row') \<and>
            m_description row' \<noteq> None"
proof (induction reqs arbitrary: db row)
  case Nil
  then show ?case by simp
next
  case (Cons r reqs)
  obtain j item where r: "r = (j, item)" by (cases r)
  from description_step [OF Cons.prems, of j item]
  obtain row1 where "query_first i (snd (update_item j item db)) = Inr (Some row1)"
    and "m_description row1 \<noteq> None"
    by blast
  from Cons.IH [OF this] show ?case by (simp add: r)
qed

text \<open>The examples' tables satisfy the constraints of the table.\<close>

lemma primary_key_examples: "primary_key [pen]" "primary_key [pen, cup]"
  by (simp_all add: primary_key_def pen_def cup_def int64_def)

section \<open>The claims\<close>

subsection \<open>Partial updates: absent fields and null fields\<close>

text \<open>
  Claim C1, as the specification states it: the validation layer and the update
  distinguish a field that is absent from a field supplied as null, and a field supplied
  explicitly, even as null, is applied as a change. The code does not: a call of
  \<^verbatim>\<open>get_item_update\<close> with \<^verbatim>\<open>description=None\<close> builds the same \<^verbatim>\<open>ItemUpdate\<close> as the call
  without the argument, and updating the pen with it does not clear the description.
\<close>

theorem update_null_not_applied_counterexample:
  "get_item_update Omitted Omitted (Supplied None) = get_item_update Omitted Omitted Omitted \<and>
   fst (update_item 1 (get_item_update Omitted Omitted (Supplied None)) [pen])
     \<noteq> Inr (pen\<lparr>m_description := None\<rparr>)"
  by (simp add: get_item_update_def update_item_def query_first_def update_commit_def
      refresh_def assign_fields_def pen_def int64_def)

text \<open>
  Claim C1, amended: the validation layer and the update do not distinguish an absent
  field from a field supplied as null. For each of the three fields both give the same
  \<^verbatim>\<open>ItemUpdate\<close>, and the update of a stored item leaves such a field untouched; a field
  supplied with a value that is not null is applied as a change. The one update the
  store refuses is that of a price to NaN: it raises and applies nothing.
\<close>

theorem update_absent_null_alike:
  assumes "primary_key db" and "row \<in> set db"
  shows "get_item_update (Supplied None) p d = get_item_update Omitted p d \<and>
         get_item_update n (Supplied None) d = get_item_update n Omitted d \<and>
         get_item_update n p (Supplied None) = get_item_update n p Omitted \<and>
         (p \<noteq> Supplied (Some NaN) \<longrightarrow>
            (\<exists>row'. fst (update_item (m_id row) (get_item_update n p d) db) = Inr row' \<and>
               m_name row' = (case n of Supplied (Some v) \<Rightarrow> v | _ \<Rightarrow> m_name row) \<and>
               m_description row' =
                 (case d of Supplied (Some v) \<Rightarrow> Some v | _ \<Rightarrow> m_description row) \<and>
               m_price row' = (case p of Supplied (Some v) \<Rightarrow> v | _ \<Rightarrow> m_price row))) \<and>
         (p = Supplied (Some NaN) \<and> m_price row \<noteq> NaN \<longrightarrow>
            update_item (m_id row) (get_item_update n p d) db = (Inl IntegrityError, db))"
proof -
  from assms have found: "query_first (m_id row) db = Inr (Some row)"
    by (rule query_first_stored)
  have same: "get_item_update (Supplied None) p d = get_item_update Omitted p d"
    "get_item_update n (Supplied None) d = get_item_update n Omitted d"
    "get_item_update n p (Supplied None) = get_item_update n p Omitted"
    by (simp_all add: get_item_update_def)
  have name: "m_name (assign_fields (get_item_update n p d) row) =
          (case n of Supplied (Some v) \<Rightarrow> v | _ \<Rightarrow> m_name row)"
    by (simp add: assign_fields_sel get_item_update_def split: arg.splits option.splits)
  have description: "m_description (assign_fields (get_item_update n p d) row) =
          (case d of Supplied (Some v) \<Rightarrow> Some v | _ \<Rightarrow> m_description row)"
    by (simp add: assign_fields_sel get_item_update_def split: arg.splits option.splits)
  have price: "m_price (assign_fields (get_item_update n p d) row) =
          (case p of Supplied (Some v) \<Rightarrow> v | _ \<Rightarrow> m_price row)"
    by (simp add: assign_fields_sel get_item_update_def split: arg.splits option.splits)
  have applied: "p \<noteq> Supplied (Some NaN) \<Longrightarrow>
      fst (update_item (m_id row) (get_item_update n p d) db) =
        Inr (assign_fields (get_item_update n p d) row)"
  proof -
    assume "p \<noteq> Supplied (Some NaN)"
    then have "u_price (get_item_update n p d) \<noteq> Some NaN"
      by (cases p) (simp_all add: get_item_update_def)
    from update_item_found [OF found this] show ?thesis by simp
  qed
  have refused: "p = Supplied (Some NaN) \<Longrightarrow> m_price row \<noteq> NaN \<Longrightarrow>
      update_item (m_id row) (get_item_update n p d) db = (Inl IntegrityError, db)"
    by (rule update_item_refused [OF found]) (simp_all add: get_item_update_def)
  from same name description price applied refused show ?thesis
    by simp
qed

theorem update_absent_null_alike_witness:
  "primary_key [pen] \<and> pen \<in> set [pen] \<and>
   get_item_update Omitted (Supplied (Some (Finite 2))) (Supplied None) =
     get_item_update Omitted (Supplied (Some (Finite 2))) Omitted \<and>
   (\<exists>row'. fst (update_item 1 (get_item_update Omitted (Supplied (Some (Finite 2))) (Supplied None))
                  [pen]) = Inr row' \<and>
      m_name row' = ''Pen'' \<and> m_description row' = Some ''blue'' \<and> m_price row' = Finite 2) \<and>
   m_price pen \<noteq> NaN \<and>
   update_item 1 (get_item_update Omitted (Supplied (Some NaN)) (Supplied None)) [pen] =
     (Inl IntegrityError, [pen])"
proof -
  have pk: "primary_key [pen]" by (rule primary_key_examples)
  have mem: "pen \<in> set [pen]" by simp
  from update_absent_null_alike
    [OF pk mem, where n = Omitted and p = "Supplied (Some (Finite 2))" and d = "Supplied None"]
    update_absent_null_alike
    [OF pk mem, where n = Omitted and p = "Supplied (Some NaN)" and d = "Supplied None"]
  show ?thesis using pk by (simp add: pen_def get_item_update_def)
qed

subsection \<open>Delete\<close>

text \<open>
  Claim C2: for every item in the store, deleting it by its id returns the item as it
  was just before the deletion and removes that item and no other: the table left behind
  is the table before without that row, no row of it has the id, and reading the id
  afterwards gives the 404 \<^verbatim>\<open>Item not found\<close>.
\<close>

theorem delete_returns_snapshot_then_not_found:
  assumes "primary_key db" and "row \<in> set db"
  shows "fst (delete_item (m_id row) db) = Inr row \<and>
         snd (delete_item (m_id row) db) = filter (\<lambda>x. x \<noteq> row) db \<and>
         m_id row \<notin> m_id ` set (snd (delete_item (m_id row) db)) \<and>
         read_item (m_id row) (snd (delete_item (m_id row) db)) =
           Inl (HTTPException 404 ''Item not found'')"
proof -
  from assms have found: "query_first (m_id row) db = Inr (Some row)"
    by (rule query_first_stored)
  then have r: "int64 (m_id row)"
    by (auto dest: query_first_Some_id)
  have del: "delete_item (m_id row) db = (Inr row, filter (\<lambda>x. x \<noteq> row) db)"
    unfolding delete_item_def found delete_commit_stored [OF assms] by simp
  have "m_id row \<notin> m_id ` set (delete_commit (m_id row) db)"
    unfolding delete_commit_def by auto
  then have gone: "m_id row \<notin> m_id ` set (filter (\<lambda>x. x \<noteq> row) db)"
    unfolding delete_commit_stored [OF assms] .
  have "read_item (m_id row) (filter (\<lambda>x. x \<noteq> row) db) =
          Inl (HTTPException 404 ''Item not found'')"
    using r gone by (rule read_item_not_found)
  with gone show ?thesis
    unfolding del fst_conv snd_conv by (intro conjI refl)
qed

theorem delete_returns_snapshot_then_not_found_witness:
  "primary_key [pen, cup] \<and> pen \<in> set [pen, cup] \<and>
   fst (delete_item 1 [pen, cup]) = Inr pen \<and>
   snd (delete_item 1 [pen, cup]) = [cup] \<and>
   1 \<notin> m_id ` set (snd (delete_item 1 [pen, cup])) \<and>
   read_item 1 (snd (delete_item 1 [pen, cup])) = Inl (HTTPException 404 ''Item not found'')"
proof -
  have pk: "primary_key [pen, cup]" by (rule primary_key_examples)
  have mem: "pen \<in> set [pen, cup]" by simp
  have i: "m_id pen = 1" by (simp add: pen_def)
  have ne: "cup \<noteq> pen" by (simp add: pen_def cup_def)
  have f: "filter (\<lambda>x. x \<noteq> pen) [pen, cup] = [cup]"
    using ne by simp
  from delete_returns_snapshot_then_not_found [OF pk mem]
  have "fst (delete_item 1 [pen, cup]) = Inr pen \<and>
        snd (delete_item 1 [pen, cup]) = [cup] \<and>
        1 \<notin> m_id ` set (snd (delete_item 1 [pen, cup])) \<and>
        read_item 1 (snd (delete_item 1 [pen, cup])) = Inl (HTTPException 404 ''Item not found'')"
    unfolding i f .
  with pk mem show ?thesis
    by blast
qed

subsection \<open>Create, then read\<close>




subsection \<open>Update\<close>




text \<open>
  Claim C5: for every stored item, the update of its id with no field supplied succeeds,
  returns the item unchanged and leaves the table as it was; so does the route called
  with an empty query string, which answers 200.
\<close>

theorem update_nothing_noop:
  assumes "primary_key db" and "row \<in> set db"
  shows "update_item (m_id row) (get_item_update Omitted Omitted Omitted) db = (Inr row, db) \<and>
         put_items parse_float (m_id row) Map.empty db = (Inr row, db) \<and>
         status_code (respond (fst (put_items parse_float (m_id row) Map.empty db))) = 200"
proof -
  from assms have found: "query_first (m_id row) db = Inr (Some row)"
    by (rule query_first_stored)
  have assign: "assign_fields (get_item_update Omitted Omitted Omitted) row = row"
    by (simp add: assign_fields_def get_item_update_def)
  have ok: "u_price (get_item_update Omitted Omitted Omitted) \<noteq> Some NaN"
    by (simp add: get_item_update_def)
  have same: "map (\<lambda>x. if x = row then row else x) db = db"
    by (induction db) auto
  have upd: "update_item (m_id row) (get_item_update Omitted Omitted Omitted) db = (Inr row, db)"
    unfolding update_item_found [OF found ok] assign update_commit_stored [OF assms] same
    by (rule refl)
  have dep:
    "depends_get_item_update parse_float Map.empty = Inr (get_item_update Omitted Omitted Omitted)"
    by (simp add: depends_get_item_update_def optional_str_def optional_float_def)
  show ?thesis
    by (simp add: upd put_items_def dep)
qed

theorem update_nothing_noop_witness:
  "primary_key [pen] \<and> pen \<in> set [pen] \<and>
   update_item 1 (get_item_update Omitted Omitted Omitted) [pen] = (Inr pen, [pen]) \<and>
   put_items float_sample 1 Map.empty [pen] = (Inr pen, [pen]) \<and>
   status_code (respond (fst (put_items float_sample 1 Map.empty [pen]))) = 200"
proof -
  have pk: "primary_key [pen]" by (rule primary_key_examples)
  have mem: "pen \<in> set [pen]" by simp
  have i: "m_id pen = 1" by (simp add: pen_def)
  from update_nothing_noop [OF pk mem, of float_sample] show ?thesis using pk by (simp add: i)
qed

subsection \<open>Ids that are not in the store\<close>




subsection \<open>Errors leave the table alone\<close>

text \<open>
  Claim C7: whenever the update, called through its route or directly, or the delete
  returns an error, be it the 404, the validation error of the route or an exception of
  the store, the table afterwards is exactly the table before. The path parameter
  \<^verbatim>\<open>item_id\<close> is an \<^verbatim>\<open>int\<close> here; a path that is no integer is refused before any of this
  runs.
\<close>

theorem errors_leave_store_unchanged:
  "(isl (fst (put_items parse_float i q db)) \<longrightarrow> snd (put_items parse_float i q db) = db) \<and>
   (isl (fst (update_item i item db)) \<longrightarrow> snd (update_item i item db) = db) \<and>
   (isl (fst (delete_item i db)) \<longrightarrow> snd (delete_item i db) = db)"
  by (simp add: put_items_error_unchanged update_item_error_unchanged delete_item_error_unchanged)

theorem errors_leave_store_unchanged_witness:
  "fst (put_items float_sample 1 [''price'' \<mapsto> ''cheap''] [pen]) =
     Inl (RequestValidationError [''price'']) \<and>
   snd (put_items float_sample 1 [''price'' \<mapsto> ''cheap''] [pen]) = [pen] \<and>
   fst (put_items float_sample 2 [''price'' \<mapsto> ''1.5''] [pen]) =
     Inl (HTTPException 404 ''Item not found'') \<and>
   snd (put_items float_sample 2 [''price'' \<mapsto> ''1.5''] [pen]) = [pen] \<and>
   fst (update_item 2 (get_item_update Omitted (Supplied (Some (Finite 2))) Omitted) [pen]) =
     Inl (HTTPException 404 ''Item not found'') \<and>
   snd (update_item 2 (get_item_update Omitted (Supplied (Some (Finite 2))) Omitted) [pen]) = [pen] \<and>
   fst (delete_item 2 [pen]) = Inl (HTTPException 404 ''Item not found'') \<and>
   snd (delete_item 2 [pen]) = [pen]"
proof -
  have v: "fst (put_items float_sample 1 [''price'' \<mapsto> ''cheap''] [pen]) =
             Inl (RequestValidationError [''price''])"
    by (simp add: put_items_def depends_get_item_update_def optional_str_def
        optional_float_def float_sample_def)
  have r: "int64 2" by (simp add: int64_def)
  have absent: "2 \<notin> m_id ` set [pen]" by (simp add: pen_def)
  have p: "fst (put_items float_sample 2 [''price'' \<mapsto> ''1.5''] [pen]) =
             Inl (HTTPException 404 ''Item not found'')"
    by (simp add: put_items_def depends_get_item_update_def optional_str_def
        optional_float_def float_sample_def update_item_not_found [OF r absent])
  have u: "fst (update_item 2 (get_item_update Omitted (Supplied (Some (Finite 2))) Omitted) [pen]) =
             Inl (HTTPException 404 ''Item not found'')"
    by (simp add: update_item_not_found [OF r absent])
  have d: "fst (delete_item 2 [pen]) = Inl (HTTPException 404 ''Item not found'')"
    by (simp add: delete_item_not_found [OF r absent])
  from v p u d
    errors_leave_store_unchanged [of float_sample 1 "[''price'' \<mapsto> ''cheap'']" "[pen]"
      "get_item_update Omitted (Supplied (Some (Finite 2))) Omitted"]
    errors_leave_store_unchanged [of float_sample 2 "[''price'' \<mapsto> ''1.5'']" "[pen]"
      "get_item_update Omitted (Supplied (Some (Finite 2))) Omitted"]
  show ?thesis by simp
qed

subsection \<open>Validation of a create request\<close>

text \<open>
  Claim C8, as the specification states it: a create request whose name is the empty
  string fails validation and inserts nothing. The code accepts it: \<^verbatim>\<open>name: str\<close> has no
  length constraint, and the request with \<^verbatim>\<open>name=\<close> and \<^verbatim>\<open>price=1.5\<close> on the empty table
  returns no error and leaves one row, with the empty name.
\<close>

theorem create_empty_name_accepted_counterexample:
  "\<not> isl (fst (post_items float_sample 0 [''name'' \<mapsto> '''', ''price'' \<mapsto> ''1.5''] [])) \<and>
   snd (post_items float_sample 0 [''name'' \<mapsto> '''', ''price'' \<mapsto> ''1.5''] []) =
     [\<lparr>m_id = 1, m_name = '''', m_description = None, m_price = Finite (3 / 2),
       m_created_at = 0\<rparr>]"
  by (simp add: post_items_def depends_get_item_create_def required_str_def required_float_def
      optional_str_def float_sample_def get_item_create_def create_item_def add_commit_def
      refresh_def query_first_def next_id_def int64_def)

text \<open>
  Claim C8, amended: a create request whose name or price is missing, or whose price
  pydantic does not read as a float, fails with a \<^verbatim>\<open>RequestValidationError\<close> that names at
  least one parameter, is answered with 422, and inserts nothing. A request with a name
  and a float price passes validation whatever the name is, the empty string included:
  its item is inserted under that name, unless the price is NaN, which the store refuses,
  and then nothing is inserted either.
\<close>

theorem create_validation:
  "(q ''name'' = None \<or> q ''price'' = None \<or> (\<exists>s. q ''price'' = Some s \<and> parse_float s = None) \<longrightarrow>
      (\<exists>es. es \<noteq> [] \<and>
         post_items parse_float now q db = (Inl (RequestValidationError es), db) \<and>
         status_code (respond (fst (post_items parse_float now q db))) = 422)) \<and>
   (q ''name'' = Some n \<and> q ''price'' = Some s \<and> parse_float s = Some p \<and> p \<noteq> NaN \<and>
    int64 (next_id db) \<longrightarrow>
      post_items parse_float now q db =
        (Inr \<lparr>m_id = next_id db, m_name = n, m_description = q ''description'', m_price = p,
               m_created_at = now\<rparr>,
         db @ [\<lparr>m_id = next_id db, m_name = n, m_description = q ''description'', m_price = p,
                m_created_at = now\<rparr>])) \<and>
   (q ''name'' = Some n \<and> q ''price'' = Some s \<and> parse_float s = Some NaN \<longrightarrow>
      post_items parse_float now q db = (Inl IntegrityError, db))"
proof (intro conjI impI)
  assume "q ''name'' = None \<or> q ''price'' = None \<or>
          (\<exists>s. q ''price'' = Some s \<and> parse_float s = None)"
  then obtain es where "es \<noteq> []"
    and "depends_get_item_create parse_float q = Inl (RequestValidationError es)"
    using depends_get_item_create_invalid by blast
  then show "\<exists>es. es \<noteq> [] \<and>
         post_items parse_float now q db = (Inl (RequestValidationError es), db) \<and>
         status_code (respond (fst (post_items parse_float now q db))) = 422"
    by (simp add: post_items_def)
next
  assume "q ''name'' = Some n \<and> q ''price'' = Some s \<and> parse_float s = Some p \<and> p \<noteq> NaN \<and>
          int64 (next_id db)"
  then show "post_items parse_float now q db =
        (Inr \<lparr>m_id = next_id db, m_name = n, m_description = q ''description'', m_price = p,
               m_created_at = now\<rparr>,
         db @ [\<lparr>m_id = next_id db, m_name = n, m_description = q ''description'', m_price = p,
                m_created_at = now\<rparr>])"
    by (simp add: post_items_def depends_get_item_create_valid create_item_eq)
next
  assume "q ''name'' = Some n \<and> q ''price'' = Some s \<and> parse_float s = Some NaN"
  then show "post_items parse_float now q db = (Inl IntegrityError, db)"
    by (simp add: post_items_def depends_get_item_create_valid create_item_refused)
qed

theorem create_validation_witness:
  "[''name'' \<mapsto> ''Pen''] ''price'' = None \<and>
   (\<exists>es. es \<noteq> [] \<and>
      post_items float_sample 0 [''name'' \<mapsto> ''Pen''] [pen] =
        (Inl (RequestValidationError es), [pen])) \<and>
   [''name'' \<mapsto> '''', ''price'' \<mapsto> ''1.5''] ''name'' = Some '''' \<and>
   [''name'' \<mapsto> '''', ''price'' \<mapsto> ''1.5''] ''price'' = Some ''1.5'' \<and>
   float_sample ''1.5'' = Some (Finite (3 / 2)) \<and> Finite (3 / 2) \<noteq> NaN \<and> int64 (next_id [pen]) \<and>
   post_items float_sample 0 [''name'' \<mapsto> '''', ''price'' \<mapsto> ''1.5''] [pen] =
     (Inr \<lparr>m_id = 2, m_name = '''', m_description = None, m_price = Finite (3 / 2),
            m_created_at = 0\<rparr>,
      [pen, \<lparr>m_id = 2, m_name = '''', m_description = None, m_price = Finite (3 / 2),
              m_created_at = 0\<rparr>]) \<and>
   float_sample ''nan'' = Some NaN \<and>
   post_items float_sample 0 [''name'' \<mapsto> '''', ''price'' \<mapsto> ''nan''] [pen] =
     (Inl IntegrityError, [pen])"
proof -
  have n: "next_id [pen] = 2" by (simp add: next_id_def pen_def)
  have r: "int64 2" by (simp add: int64_def)
  have f: "float_sample ''1.5'' = Some (Finite (3 / 2))" "float_sample ''nan'' = Some NaN"
    by (simp_all add: float_sample_def)
  from create_validation [of "[''name'' \<mapsto> ''Pen'']" float_sample 0 "[pen]"]
    create_validation [of "[''name'' \<mapsto> '''', ''price'' \<mapsto> ''1.5'']" float_sample 0 "[pen]"
      "''''" "''1.5''" "Finite (3 / 2)"]
    create_validation [of "[''name'' \<mapsto> '''', ''price'' \<mapsto> ''nan'']" float_sample 0 "[pen]"
      "''''" "''nan''"]
  show ?thesis by (auto simp: n r f)
qed

subsection \<open>The response to a create request\<close>

text \<open>
  Claim C9, as the specification states it: every valid create request is answered with
  the status 201 and the inserted item. The route declares no status code, and the answer
  to the request for a pen on the empty table does not have status 201; and the valid
  request for a pen with the price NaN is answered 500, the store having refused the row.
\<close>

theorem create_status_not_201_counterexample:
  "status_code (respond (fst (post_items float_sample 0
      [''name'' \<mapsto> ''Pen'', ''price'' \<mapsto> ''1.5''] []))) \<noteq> 201 \<and>
   depends_get_item_create float_sample [''name'' \<mapsto> ''Pen'', ''price'' \<mapsto> ''nan''] =
     Inr (get_item_create ''Pen'' NaN Omitted) \<and>
   respond (fst (post_items float_sample 0 [''name'' \<mapsto> ''Pen'', ''price'' \<mapsto> ''nan''] [])) =
     JSONResponse 500 (Detail ''Internal Server Error'')"
  by (simp add: post_items_def depends_get_item_create_def required_str_def required_float_def
      optional_str_def float_sample_def get_item_create_def create_item_def add_commit_def
      refresh_def query_first_def next_id_def int64_def)

text \<open>
  Claim C9, amended: for every valid create request with a finite price the handler
  responds with status 200 and the full inserted item: the id the table gave, the name,
  description and price of the request, and the time of the insert; that item is the row
  appended to the table. The table is one where the next id is a 64-bit integer.
\<close>

theorem create_responds_200_with_item:
  assumes "depends_get_item_create parse_float q = Inr item"
    and "isfinite (c_price item)" and "int64 (next_id db)"
  shows "respond (fst (post_items parse_float now q db)) =
           JSONResponse 200
             (Item \<lparr>r_id = next_id db, r_name = c_name item, r_description = c_description item,
                    r_price = c_price item, r_created_at = now\<rparr>) \<and>
         snd (post_items parse_float now q db) =
           db @ [\<lparr>m_id = next_id db, m_name = c_name item, m_description = c_description item,
                  m_price = c_price item, m_created_at = now\<rparr>]"
proof -
  from assms(2) have "c_price item \<noteq> NaN" by auto
  with assms(1,3) show ?thesis
    by (simp add: post_items_def create_item_eq from_attributes_def)
qed

theorem create_responds_200_with_item_witness:
  "depends_get_item_create float_sample [''name'' \<mapsto> ''Pen'', ''price'' \<mapsto> ''1.5''] =
     Inr \<lparr>c_name = ''Pen'', c_description = None, c_price = Finite (3 / 2)\<rparr> \<and>
   isfinite (Finite (3 / 2)) \<and> int64 (next_id []) \<and>
   respond (fst (post_items float_sample 7 [''name'' \<mapsto> ''Pen'', ''price'' \<mapsto> ''1.5''] [])) =
     JSONResponse 200
       (Item \<lparr>r_id = 1, r_name = ''Pen'', r_description = None, r_price = Finite (3 / 2),
              r_created_at = 7\<rparr>)"
proof -
  have v: "depends_get_item_create float_sample [''name'' \<mapsto> ''Pen'', ''price'' \<mapsto> ''1.5''] =
     Inr \<lparr>c_name = ''Pen'', c_description = None, c_price = Finite (3 / 2)\<rparr>"
    by (simp add: depends_get_item_create_def required_str_def required_float_def
      optional_str_def float_sample_def get_item_create_def)
  have f: "isfinite (c_price \<lparr>c_name = ''Pen'', c_description = None, c_price = Finite (3 / 2)\<rparr>)"
    by simp
  have n: "int64 (next_id [])" by (simp add: next_id_def int64_def)
  from create_responds_200_with_item [OF v f n, of 7] v n show ?thesis
    by (simp add: next_id_def)
qed

subsection \<open>Null in an update\<close>

text \<open>
  Claim C10: for every stored item, the update of its id with a field supplied as null
  leaves that field as it was; and once the description of an item is not null, it is not
  null after any sequence of updates, whatever their ids and fields. An update whose
  price is NaN is refused by the store and changes nothing.
\<close>

theorem update_null_leaves_field:
  assumes "primary_key db" and "row \<in> set db"
  shows "(p \<noteq> Supplied (Some NaN) \<longrightarrow>
            (\<exists>row'. fst (update_item (m_id row) (get_item_update n p d) db) = Inr row' \<and>
               (n = Supplied None \<longrightarrow> m_name row' = m_name row) \<and>
               (d = Supplied None \<longrightarrow> m_description row' = m_description row) \<and>
               (p = Supplied None \<longrightarrow> m_price row' = m_price row))) \<and>
         (p = Supplied (Some NaN) \<and> m_price row \<noteq> NaN \<longrightarrow>
            update_item (m_id row) (get_item_update n p d) db = (Inl IntegrityError, db)) \<and>
         (m_description row \<noteq> None \<longrightarrow>
            (\<exists>row'. query_first (m_id row)
                      (fold (\<lambda>(j, item) db. snd (update_item j item db)) reqs db)
                      = Inr (Some row') \<and>
                    m_description row' \<noteq> None))"
proof -
  from assms have found: "query_first (m_id row) db = Inr (Some row)"
    by (rule query_first_stored)
  let ?new = "assign_fields (get_item_update n p d) row"
  have applied: "p \<noteq> Supplied (Some NaN) \<Longrightarrow>
      fst (update_item (m_id row) (get_item_update n p d) db) = Inr ?new"
  proof -
    assume "p \<noteq> Supplied (Some NaN)"
    then have "u_price (get_item_update n p d) \<noteq> Some NaN"
      by (cases p) (simp_all add: get_item_update_def)
    from update_item_found [OF found this] show ?thesis by simp
  qed
  have name: "n = Supplied None \<longrightarrow> m_name ?new = m_name row"
    by (simp add: assign_fields_sel get_item_update_def)
  have description: "d = Supplied None \<longrightarrow> m_description ?new = m_description row"
    by (simp add: assign_fields_sel get_item_update_def)
  have price: "p = Supplied None \<longrightarrow> m_price ?new = m_price row"
    by (simp add: assign_fields_sel get_item_update_def)
  have refused: "p = Supplied (Some NaN) \<Longrightarrow> m_price row \<noteq> NaN \<Longrightarrow>
      update_item (m_id row) (get_item_update n p d) db = (Inl IntegrityError, db)"
    by (rule update_item_refused [OF found]) (simp_all add: get_item_update_def)
  from applied name description price refused description_stays [OF found, of reqs]
  show ?thesis by blast
qed

theorem update_null_leaves_field_witness:
  "primary_key [pen] \<and> pen \<in> set [pen] \<and> m_description pen \<noteq> None \<and>
   fst (update_item 1 (get_item_update (Supplied None) (Supplied None) (Supplied None)) [pen])
     = Inr pen \<and>
   m_price pen \<noteq> NaN \<and>
   update_item 1 (get_item_update (Supplied None) (Supplied (Some NaN)) (Supplied None)) [pen]
     = (Inl IntegrityError, [pen]) \<and>
   (\<exists>row'. query_first 1
      (fold (\<lambda>(j, item) db. snd (update_item j item db))
         [(1, get_item_update Omitted Omitted (Supplied None)),
          (1, get_item_update (Supplied (Some ''Pencil'')) Omitted (Supplied None))] [pen])
        = Inr (Some row') \<and> m_description row' \<noteq> None)"
proof -
  have pk: "primary_key [pen]" by (rule primary_key_examples)
  have mem: "pen \<in> set [pen]" by simp
  have i: "m_id pen = 1" by (simp add: pen_def)
  have de: "m_description pen \<noteq> None" "m_price pen \<noteq> NaN" by (simp_all add: pen_def)
  have eq: "fst (update_item 1 (get_item_update (Supplied None) (Supplied None) (Supplied None)) [pen])
     = Inr pen"
    by (simp add: update_item_def query_first_def update_commit_def refresh_def assign_fields_def
        get_item_update_def pen_def int64_def)
  from update_null_leaves_field [OF pk mem, where n = "Supplied None" and p = "Supplied None"
      and d = "Supplied None"
      and reqs = "[(1, get_item_update Omitted Omitted (Supplied None)),
          (1, get_item_update (Supplied (Some ''Pencil'')) Omitted (Supplied None))]"]
    update_null_leaves_field [OF pk mem, where n = "Supplied None"
      and p = "Supplied (Some NaN)" and d = "Supplied None" and reqs = "[]"]
  show ?thesis using pk de eq by (simp add: i)
qed

end
